theory Spec2Isabelle
  imports Main
begin

section \<open>User properties controller\<close>

text \<open>
  A shallow embedding of \<^verbatim>\<open>packages/api/src/controllers/userPropertiesController.ts\<close>:
  the PUT handler (create or update a user property), the GET handler that lists the
  properties of a workspace, and the DELETE handler.

  The handlers talk to a relational store through the Prisma client, validate the stored
  definition with \<^verbatim>\<open>schemaValidate\<close> and consult the set
  \<^verbatim>\<open>protectedUserProperties\<close>. None of the three is defined in the controller, so
  the handlers below take them as arguments: the client as a record of the four store
  operations the controller calls, the validator as a function, the protected names as the
  list \<^verbatim>\<open>Array.from(protectedUserProperties)\<close>. The clock read by
  \<^verbatim>\<open>new Date()\<close> is the argument \<open>now\<close>.

  JavaScript values are modelled as follows.
  \<^item> A field of the request body that may be missing is an \<open>option\<close>:
    \<open>None\<close> is \<^verbatim>\<open>undefined\<close>.
  \<^item> A nullable column of a stored row is a \<open>nullable\<close>: \<open>Null\<close> is
    \<^verbatim>\<open>null\<close>.
  \<^item> A string is truthy when it is present and not empty. A definition is a JSON object
    (the body schema admits nothing else), so it is truthy exactly when it is present; its
    structure is opaque to the controller and is the type parameter \<open>'d\<close>.
  \<^item> The variable \<^verbatim>\<open>id\<close> is written \<open>id'\<close>, since \<open>id\<close> is the identity
    function of HOL.
  \<^item> A thrown exception is the left summand of a store result, and the variant
    \<open>Throw\<close> of a handler's outcome.
\<close>

subsection \<open>Data\<close>

type_synonym timestamp = nat

datatype 'a nullable = Null | Value 'a

text \<open>A row of the \<^verbatim>\<open>userProperty\<close> table (the type \<^verbatim>\<open>UserProperty\<close>).\<close>

record 'd UserProperty =
  up_id :: string
  up_workspaceId :: string
  up_name :: string
  up_definition :: 'd
  up_definitionUpdatedAt :: "timestamp nullable"
  up_exampleValue :: "string nullable"

text \<open>The request body of PUT (\<^verbatim>\<open>UpsertUserPropertyResource\<close>), as the handler
  destructures it.\<close>

record 'd UpsertUserPropertyResource =
  req_id :: "string option"
  req_name :: "string option"
  req_definition :: "'d option"
  req_workspaceId :: "string option"
  req_exampleValue :: "string option"

text \<open>The response body of PUT (\<^verbatim>\<open>UserPropertyResource\<close>).\<close>

record 'd UserPropertyResource =
  res_id :: string
  res_name :: string
  res_workspaceId :: string
  res_definition :: 'd
  res_exampleValue :: "string option"

text \<open>The \<^verbatim>\<open>create\<close> payload of the upsert call (lines 50-56): it has no
  \<^verbatim>\<open>definitionUpdatedAt\<close>.\<close>

record 'd UserPropertyCreateInput =
  cr_id :: string
  cr_workspaceId :: string
  cr_name :: string
  cr_definition :: 'd
  cr_exampleValue :: "string option"

text \<open>The \<^verbatim>\<open>update\<close> payload of the upsert call (lines 57-63) and the
  \<^verbatim>\<open>data\<close> payload of the update call (lines 70-76).\<close>

record 'd UserPropertyUpdateInput =
  upd_workspaceId :: "string option"
  upd_name :: "string option"
  upd_definition :: "'d option"
  upd_definitionUpdatedAt :: "timestamp option"
  upd_exampleValue :: "string option"

text \<open>Exceptions. \<^verbatim>\<open>Prisma.PrismaClientKnownRequestError\<close> carries its
  \<^verbatim>\<open>code\<close>; every other thrown value is one of the two remaining variants.\<close>

datatype fault =
    PrismaClientKnownRequestError string
  | PrismaClientValidationError
  | OtherError string

text \<open>What a handler does with the request: it sends a reply (status and body, the body
  \<open>None\<close> for \<^verbatim>\<open>send()\<close>), or an exception leaves the handler.\<close>

datatype 'b outcome = Reply nat "'b option" | Throw fault

text \<open>The result type of \<^verbatim>\<open>schemaValidate\<close> (a neverthrow
  \<^verbatim>\<open>Result\<close>); the handler only asks \<^verbatim>\<open>isErr()\<close> and reads
  \<^verbatim>\<open>value\<close>.\<close>

datatype 'a Result = Ok 'a | Err

text \<open>The Prisma client, as far as the controller uses it. Every operation maps the store
  to an exception, or to its result and the store after it; the arguments are those the
  controller passes:
  \<^item> \<open>userProperty_upsert id create update\<close> for
    \<^verbatim>\<open>userProperty.upsert({where: {id}, create, update})\<close>;
  \<^item> \<open>userProperty_update id data\<close> for
    \<^verbatim>\<open>userProperty.update({where: {id}, data})\<close>, where \<open>id\<close> may be undefined;
  \<^item> \<open>userPropertyAssignment_deleteMany id names\<close> for the
    \<^verbatim>\<open>deleteMany\<close> of lines 181-196, returning the count;
  \<^item> \<open>userProperty_deleteMany id names\<close> for the \<^verbatim>\<open>deleteMany\<close> of
    lines 197-210, returning the count.\<close>

record ('db, 'd) PrismaClient =
  userProperty_upsert ::
    "string \<Rightarrow> 'd UserPropertyCreateInput \<Rightarrow> 'd UserPropertyUpdateInput \<Rightarrow> 'db
      \<Rightarrow> fault + ('d UserProperty \<times> 'db)"
  userProperty_update ::
    "string option \<Rightarrow> 'd UserPropertyUpdateInput \<Rightarrow> 'db \<Rightarrow> fault + ('d UserProperty \<times> 'db)"
  userPropertyAssignment_deleteMany ::
    "string \<Rightarrow> string list \<Rightarrow> 'db \<Rightarrow> fault + (int \<times> 'db)"
  userProperty_deleteMany ::
    "string \<Rightarrow> string list \<Rightarrow> 'db \<Rightarrow> fault + (int \<times> 'db)"

subsection \<open>The PUT handler\<close>

text \<open>Truthiness of an optional string.\<close>

definition truthy :: "string option \<Rightarrow> bool" where
  "truthy s = (case s of None \<Rightarrow> False | Some v \<Rightarrow> v \<noteq> [])"

text \<open>\<^verbatim>\<open>protectedUserProperties.has(name)\<close> (line 41): a set of strings does not
  hold \<^verbatim>\<open>undefined\<close>.\<close>

definition has :: "string list \<Rightarrow> string option \<Rightarrow> bool" where
  "has protectedUserProperties name =
     (case name of None \<Rightarrow> False | Some n \<Rightarrow> n \<in> set protectedUserProperties)"

text \<open>Lines 38-39 and 45-78: the store call the handler makes. \<open>canCreate && id\<close> is
  truthy exactly when all four of workspaceId, name, definition and id are; then the four
  are bound and the upsert is called, otherwise the update is called with whatever the
  body held.\<close>

definition upsert_persist ::
  "('db, 'd) PrismaClient \<Rightarrow> timestamp \<Rightarrow> 'd UpsertUserPropertyResource \<Rightarrow> 'db
     \<Rightarrow> fault + ('d UserProperty \<times> 'db)" where
  "upsert_persist prisma now body db =
     (let id' = req_id body; name = req_name body; definition = req_definition body;
          workspaceId = req_workspaceId body; exampleValue = req_exampleValue body;
          canCreate = (truthy workspaceId \<and> truthy name \<and> definition \<noteq> None);
          definitionUpdatedAt = (if definition \<noteq> None then Some now else None);
          data = \<lparr>upd_workspaceId = workspaceId, upd_name = name,
                  upd_definition = definition, upd_definitionUpdatedAt = definitionUpdatedAt,
                  upd_exampleValue = exampleValue\<rparr>
      in if canCreate \<and> truthy id' then
           (case (id', workspaceId, name, definition) of
              (Some i, Some w, Some n, Some d) \<Rightarrow>
                userProperty_upsert prisma i
                  \<lparr>cr_id = i, cr_workspaceId = w, cr_name = n, cr_definition = d,
                   cr_exampleValue = exampleValue\<rparr>
                  data db
            | _ \<Rightarrow> userProperty_update prisma id' data db)
         else userProperty_update prisma id' data db)"

text \<open>Lines 89-95: the resource built from the row the store returned and the validated
  definition; \<^verbatim>\<open>exampleValue ?? undefined\<close> turns null into undefined.\<close>

definition resource_of :: "'d UserProperty \<Rightarrow> 'd \<Rightarrow> 'd UserPropertyResource" where
  "resource_of userProperty v =
     \<lparr>res_id = up_id userProperty,
      res_name = up_name userProperty,
      res_workspaceId = up_workspaceId userProperty,
      res_definition = v,
      res_exampleValue =
        (case up_exampleValue userProperty of Null \<Rightarrow> None | Value e \<Rightarrow> Some e)\<rparr>"

text \<open>Lines 34-98. \<open>validate\<close> is
  \<^verbatim>\<open>(v) => schemaValidate(v, UserPropertyDefinition)\<close>. An exception of the store
  call is not caught; the store is then as the call found it.\<close>

definition upsert_handler ::
  "('db, 'd) PrismaClient \<Rightarrow> string list \<Rightarrow> ('d \<Rightarrow> 'd Result) \<Rightarrow> timestamp
     \<Rightarrow> 'd UpsertUserPropertyResource \<Rightarrow> 'db \<Rightarrow> 'd UserPropertyResource outcome \<times> 'db" where
  "upsert_handler prisma protectedUserProperties validate now body db =
     (if has protectedUserProperties (req_name body) then (Reply 400 None, db)
      else
        (case upsert_persist prisma now body db of
           Inl e \<Rightarrow> (Throw e, db)
         | Inr (userProperty, db') \<Rightarrow>
             (case validate (up_definition userProperty) of
                Err \<Rightarrow> (Reply 500 None, db')
              | Ok v \<Rightarrow> (Reply 200 (Some (resource_of userProperty v)), db'))))"

subsection \<open>The DELETE handler\<close>

text \<open>Lines 180-211, the body of \<^verbatim>\<open>try\<close>: the two \<^verbatim>\<open>deleteMany\<close>
  calls in order. It yields \<^verbatim>\<open>deletedCount\<close>, or the exception of the call that
  threw; the store is the one the last successful call left.\<close>

definition delete_try ::
  "('db, 'd) PrismaClient \<Rightarrow> string list \<Rightarrow> string \<Rightarrow> 'db \<Rightarrow> (fault + int) \<times> 'db" where
  "delete_try prisma protectedUserProperties id' db =
     (case userPropertyAssignment_deleteMany prisma id' protectedUserProperties db of
        Inl e \<Rightarrow> (Inl e, db)
      | Inr (_, db1) \<Rightarrow>
          (case userProperty_deleteMany prisma id' protectedUserProperties db1 of
             Inl e \<Rightarrow> (Inl e, db1)
           | Inr (count, db2) \<Rightarrow> (Inr count, db2)))"

text \<open>Lines 212-222, the \<^verbatim>\<open>catch\<close> clause.\<close>

definition delete_catch :: "fault \<Rightarrow> unit outcome" where
  "delete_catch e =
     (case e of
        PrismaClientKnownRequestError code \<Rightarrow>
          (if code = ''P2025'' then Reply 404 None
           else if code = ''P2023'' then Reply 404 None
           else Throw e)
      | _ \<Rightarrow> Throw e)"

text \<open>Lines 176-229.\<close>

definition delete_handler ::
  "('db, 'd) PrismaClient \<Rightarrow> string list \<Rightarrow> string \<Rightarrow> 'db \<Rightarrow> unit outcome \<times> 'db" where
  "delete_handler prisma protectedUserProperties id' db =
     (case delete_try prisma protectedUserProperties id' db of
        (Inl e, db') \<Rightarrow> (delete_catch e, db')
      | (Inr deletedCount, db') \<Rightarrow>
          (if deletedCount \<le> 0 then (Reply 404 None, db') else (Reply 204 None, db')))"

subsection \<open>The store\<close>

text \<open>A reference model of the two tables behind the client, for the claims about what
  a request leaves in the store. The Prisma schema is not part of the controller; the model
  takes from the specification what it says about the tables, and from Prisma the documented
  behaviour of the four calls:
  \<^item> a field that is \<^verbatim>\<open>undefined\<close> in an update payload is left as it is;
  \<^item> \<^verbatim>\<open>update\<close> raises a validation error when its \<^verbatim>\<open>where\<close> names no
    id, and the known request error P2025 when no row has the id;
  \<^item> \<^verbatim>\<open>upsert\<close> updates the row that has the id and inserts the
    \<^verbatim>\<open>create\<close> payload when there is none;
  \<^item> a write that would break a unique index raises the known request error P2002;
  \<^item> \<^verbatim>\<open>deleteMany\<close> removes the rows its filter matches and returns their number.
  Constraints on other tables (the workspace a row refers to) and faults of the connection
  are outside the model; the theorems about faults are stated for every client instead.\<close>

text \<open>Modelled from the spec: the \<^verbatim>\<open>userPropertyAssignment\<close> table, whose schema is
  not among the sources. An assignment binds a \<open>userPropertyId\<close> to a materialized value
  for one user.\<close>

record UserPropertyAssignment =
  asg_userPropertyId :: string
  asg_userId :: string
  asg_content :: string

record 'd Db =
  userProperty_table :: "'d UserProperty list"
  userPropertyAssignment_table :: "UserPropertyAssignment list"

text \<open>The row with a given id (\<^verbatim>\<open>findUnique\<close> by primary key).\<close>

definition lookup :: "'d Db \<Rightarrow> string \<Rightarrow> 'd UserProperty option" where
  "lookup db i = find (\<lambda>r. up_id r = i) (userProperty_table db)"

text \<open>An update payload applied to a row: undefined fields are skipped.\<close>

definition apply_update :: "'d UserPropertyUpdateInput \<Rightarrow> 'd UserProperty \<Rightarrow> 'd UserProperty" where
  "apply_update u r =
     r\<lparr>up_workspaceId := (case upd_workspaceId u of None \<Rightarrow> up_workspaceId r | Some w \<Rightarrow> w),
       up_name := (case upd_name u of None \<Rightarrow> up_name r | Some n \<Rightarrow> n),
       up_definition := (case upd_definition u of None \<Rightarrow> up_definition r | Some d \<Rightarrow> d),
       up_definitionUpdatedAt :=
         (case upd_definitionUpdatedAt u of None \<Rightarrow> up_definitionUpdatedAt r | Some t \<Rightarrow> Value t),
       up_exampleValue :=
         (case upd_exampleValue u of None \<Rightarrow> up_exampleValue r | Some e \<Rightarrow> Value e)\<rparr>"

text \<open>Modelled from the spec: the columns a create payload does not fill. The schema is
  not among the sources; \<^verbatim>\<open>definitionUpdatedAt\<close> is a nullable column that an
  insert leaves unset, and an example value that is not given is null.\<close>

definition row_of_create :: "'d UserPropertyCreateInput \<Rightarrow> 'd UserProperty" where
  "row_of_create c =
     \<lparr>up_id = cr_id c, up_workspaceId = cr_workspaceId c, up_name = cr_name c,
      up_definition = cr_definition c, up_definitionUpdatedAt = Null,
      up_exampleValue = (case cr_exampleValue c of None \<Rightarrow> Null | Some e \<Rightarrow> Value e)\<rparr>"

text \<open>Modelled from the spec: the unique indexes of the table, which the schema (not among
  the sources) declares. The id is unique, and the name is unique within a workspace. The
  predicate says that a row other than the one with the id of \<open>r\<close> already has the
  workspace and the name of \<open>r\<close>.\<close>

definition name_taken :: "'d UserProperty list \<Rightarrow> 'd UserProperty \<Rightarrow> bool" where
  "name_taken rows r =
     list_ex (\<lambda>q. up_id q \<noteq> up_id r \<and> up_workspaceId q = up_workspaceId r \<and> up_name q = up_name r)
       rows"

definition store_update ::
  "string option \<Rightarrow> 'd UserPropertyUpdateInput \<Rightarrow> 'd Db \<Rightarrow> fault + ('d UserProperty \<times> 'd Db)" where
  "store_update where_id data db =
     (case where_id of
        None \<Rightarrow> Inl PrismaClientValidationError
      | Some i \<Rightarrow>
          (case lookup db i of
             None \<Rightarrow> Inl (PrismaClientKnownRequestError ''P2025'')
           | Some r \<Rightarrow>
               (let r' = apply_update data r in
                if name_taken (userProperty_table db) r'
                then Inl (PrismaClientKnownRequestError ''P2002'')
                else Inr (r', db\<lparr>userProperty_table :=
                            map (\<lambda>q. if up_id q = i then r' else q) (userProperty_table db)\<rparr>))))"

definition store_upsert ::
  "string \<Rightarrow> 'd UserPropertyCreateInput \<Rightarrow> 'd UserPropertyUpdateInput \<Rightarrow> 'd Db
     \<Rightarrow> fault + ('d UserProperty \<times> 'd Db)" where
  "store_upsert i create update db =
     (case lookup db i of
        Some r \<Rightarrow> store_update (Some i) update db
      | None \<Rightarrow>
          (let r' = row_of_create create in
           if name_taken (userProperty_table db) r' \<or> lookup db (up_id r') \<noteq> None
           then Inl (PrismaClientKnownRequestError ''P2002'')
           else Inr (r', db\<lparr>userProperty_table := userProperty_table db @ [r']\<rparr>)))"

text \<open>The filter of lines 182-195: the assignment belongs to the property \<open>i\<close>, and the
  property it belongs to has a name outside the list.\<close>

definition assignment_matches ::
  "'d UserProperty list \<Rightarrow> string \<Rightarrow> string list \<Rightarrow> UserPropertyAssignment \<Rightarrow> bool" where
  "assignment_matches rows i names a =
     (asg_userPropertyId a = i \<and>
      list_ex (\<lambda>r. up_id r = asg_userPropertyId a \<and> up_name r \<notin> set names) rows)"

text \<open>The filter of lines 198-209.\<close>

definition property_matches :: "string \<Rightarrow> string list \<Rightarrow> 'd UserProperty \<Rightarrow> bool" where
  "property_matches i names r = (up_id r = i \<and> up_name r \<notin> set names)"

definition store_deleteMany_assignments ::
  "string \<Rightarrow> string list \<Rightarrow> 'd Db \<Rightarrow> fault + (int \<times> 'd Db)" where
  "store_deleteMany_assignments i names db =
     (let hit = assignment_matches (userProperty_table db) i names in
      Inr (int (length (filter hit (userPropertyAssignment_table db))),
           db\<lparr>userPropertyAssignment_table :=
                filter (\<lambda>a. \<not> hit a) (userPropertyAssignment_table db)\<rparr>))"

text \<open>Modelled from the spec: an assignment is deleted with the property that owns it
  (cascade), so the assignments of the deleted rows go with them.\<close>

definition store_deleteMany_properties ::
  "string \<Rightarrow> string list \<Rightarrow> 'd Db \<Rightarrow> fault + (int \<times> 'd Db)" where
  "store_deleteMany_properties i names db =
     (let hit = property_matches i names;
          gone = map up_id (filter hit (userProperty_table db)) in
      Inr (int (length gone),
           db\<lparr>userProperty_table := filter (\<lambda>r. \<not> hit r) (userProperty_table db),
              userPropertyAssignment_table :=
                filter (\<lambda>a. asg_userPropertyId a \<notin> set gone) (userPropertyAssignment_table db)\<rparr>))"

definition store :: "('d Db, 'd) PrismaClient" where
  "store =
     \<lparr>userProperty_upsert = store_upsert,
      userProperty_update = store_update,
      userPropertyAssignment_deleteMany = store_deleteMany_assignments,
      userProperty_deleteMany = store_deleteMany_properties\<rparr>"

text \<open>The primary key: no two rows share an id.\<close>

definition distinct_ids :: "'d Db \<Rightarrow> bool" where
  "distinct_ids db = distinct (map up_id (userProperty_table db))"

subsection \<open>Validation and listing\<close>

text \<open>Modelled from the spec: \<^verbatim>\<open>schemaValidate\<close> of
  \<^verbatim>\<open>isomorphic-lib/src/resultHandling/schemaValidation\<close>, which is not among the
  sources. A value is validated against a schema and the result is the validated value or
  an error, never an exception. The schema is the predicate saying which values conform; the
  validated value is the value that was checked.\<close>

definition schemaValidate :: "('d \<Rightarrow> bool) \<Rightarrow> 'd \<Rightarrow> 'd Result" where
  "schemaValidate schema v = (if schema v then Ok v else Err)"

text \<open>Modelled from the spec: \<^verbatim>\<open>findAllUserProperties\<close> of
  \<^verbatim>\<open>backend-lib/src/userProperties\<close>, which the GET handler calls and which is not
  among the sources. It returns the properties owned by the workspace in the validated
  resource shape. The specification does not say what becomes of a row whose definition
  does not validate; here it is left out of the list. Reading the reference store raises
  nothing.\<close>

definition findAllUserProperties ::
  "('d \<Rightarrow> 'd Result) \<Rightarrow> string \<Rightarrow> 'd Db \<Rightarrow> fault + 'd UserPropertyResource list" where
  "findAllUserProperties validate workspaceId db =
     Inr (List.map_filter
       (\<lambda>r. case validate (up_definition r) of Err \<Rightarrow> None | Ok v \<Rightarrow> Some (resource_of r v))
       (filter (\<lambda>r. up_workspaceId r = workspaceId) (userProperty_table db)))"

text \<open>Lines 149-159, the GET handler of \<^verbatim>\<open>/\<close>: the properties of the workspace
  in a 200 reply; an exception of the lookup is caught and thrown again. The lookup is an
  argument, as the client is.\<close>

definition get_handler ::
  "(string \<Rightarrow> 'db \<Rightarrow> fault + 'r list) \<Rightarrow> string \<Rightarrow> 'db \<Rightarrow> 'r list outcome" where
  "get_handler findAll workspaceId db =
     (case findAll workspaceId db of
        Inl e \<Rightarrow> Throw e
      | Inr properties \<Rightarrow> Reply 200 (Some properties))"

subsection \<open>Example data\<close>

text \<open>A small store for the concrete instances below. Definitions are strings that name
  their variant; the schema admits two of them. The first row carries a protected name, the
  third a definition the schema does not admit (a store seeded with malformed data).\<close>

definition example_protected :: "string list" where
  "example_protected = [''id'', ''anonymousId'']"

definition example_schema :: "string \<Rightarrow> bool" where
  "example_schema d = (d = ''trait'' \<or> d = ''id'')"

definition example_db :: "string Db" where
  "example_db =
     \<lparr>userProperty_table =
        [\<lparr>up_id = ''p1'', up_workspaceId = ''w1'', up_name = ''id'', up_definition = ''id'',
          up_definitionUpdatedAt = Value 5, up_exampleValue = Null\<rparr>,
         \<lparr>up_id = ''p2'', up_workspaceId = ''w1'', up_name = ''email'', up_definition = ''trait'',
          up_definitionUpdatedAt = Value 7, up_exampleValue = Value ''a@b.c''\<rparr>,
         \<lparr>up_id = ''p3'', up_workspaceId = ''w1'', up_name = ''legacy'',
          up_definition = ''malformed'', up_definitionUpdatedAt = Null, up_exampleValue = Null\<rparr>],
      userPropertyAssignment_table =
        [\<lparr>asg_userPropertyId = ''p1'', asg_userId = ''u1'', asg_content = ''42''\<rparr>,
         \<lparr>asg_userPropertyId = ''p2'', asg_userId = ''u1'', asg_content = ''x@y.z''\<rparr>]\<rparr>"

text \<open>A client none of whose calls reaches the store: each raises the given exception
  (the store refuses the identifier, or cannot be reached).\<close>

definition failing :: "fault \<Rightarrow> ('d Db, 'd) PrismaClient" where
  "failing e =
     \<lparr>userProperty_upsert = (\<lambda>i create update db. Inl e),
      userProperty_update = (\<lambda>i data db. Inl e),
      userPropertyAssignment_deleteMany = (\<lambda>i names db. Inl e),
      userProperty_deleteMany = (\<lambda>i names db. Inl e)\<rparr>"

section \<open>Properties\<close>

subsection \<open>Facts about the store\<close>

lemma lookup_SomeD:
  "lookup db i = Some r \<Longrightarrow> r \<in> set (userProperty_table db) \<and> up_id r = i"
  by (auto simp: lookup_def find_Some_iff)

lemma find_replace:
  "find (\<lambda>r. up_id r = i) rows = Some r \<Longrightarrow> up_id r' = i \<Longrightarrow>
   find (\<lambda>r. up_id r = i) (map (\<lambda>q. if up_id q = i then r' else q) rows) = Some r'"
  by (induction rows) (auto split: if_splits)

lemma find_append_new:
  "find (\<lambda>r. up_id r = i) rows = None \<Longrightarrow> up_id r' = i \<Longrightarrow>
   find (\<lambda>r. up_id r = i) (rows @ [r']) = Some r'"
  by (induction rows) (auto split: if_splits)

lemma lookup_replace:
  "lookup db i = Some r \<Longrightarrow> up_id r' = i \<Longrightarrow>
   lookup (db\<lparr>userProperty_table :=
              map (\<lambda>q. if up_id q = i then r' else q) (userProperty_table db)\<rparr>) i = Some r'"
  by (simp add: lookup_def find_replace)

lemma lookup_append_new:
  "lookup db i = None \<Longrightarrow> up_id r' = i \<Longrightarrow>
   lookup (db\<lparr>userProperty_table := userProperty_table db @ [r']\<rparr>) i = Some r'"
  by (simp add: lookup_def find_append_new)

lemma up_id_apply_update [simp]: "up_id (apply_update u r) = up_id r"
  by (simp add: apply_update_def)

text \<open>A successful update found the row, wrote the payload over it, and the row it returns
  is the one now stored under the id.\<close>

lemma store_update_Inr:
  assumes "store_update w data db = Inr (r', db')"
  shows "\<exists>i r. w = Some i \<and> lookup db i = Some r \<and> r' = apply_update data r \<and>
         \<not> name_taken (userProperty_table db) r' \<and>
         db' = db\<lparr>userProperty_table :=
                 map (\<lambda>q. if up_id q = i then r' else q) (userProperty_table db)\<rparr> \<and>
         lookup db' i = Some r'"
proof (cases w)
  case None
  with assms show ?thesis by (simp add: store_update_def)
next
  case (Some i)
  show ?thesis
  proof (cases "lookup db i")
    case None
    with assms Some show ?thesis by (simp add: store_update_def)
  next
    case (Some r)
    then have "up_id (apply_update data r) = i"
      by (auto dest: lookup_SomeD)
    with assms \<open>w = Some i\<close> Some show ?thesis
      by (auto simp: store_update_def Let_def lookup_replace split: if_splits)
  qed
qed

text \<open>A successful upsert either updated the row with the id, or found none and appended
  the create payload.\<close>

lemma store_upsert_Inr:
  "store_upsert i create update db = Inr (r', db') \<Longrightarrow>
   (\<exists>r. lookup db i = Some r \<and> r' = apply_update update r \<and> lookup db' i = Some r') \<or>
   (lookup db i = None \<and> r' = row_of_create create \<and>
      lookup db (up_id r') = None \<and> \<not> name_taken (userProperty_table db) r' \<and>
      db' = db\<lparr>userProperty_table := userProperty_table db @ [r']\<rparr>)"
  by (auto simp: store_upsert_def Let_def dest!: store_update_Inr split: option.splits if_splits)

text \<open>What the store call of the PUT handler leaves behind when it succeeds: the request
  named an id, the returned row is stored under it, and its \<open>definitionUpdatedAt\<close> is
  null for a new row, the clock for an old row when a definition was sent, and the old
  value otherwise.\<close>

lemma upsert_persist_store_Inr:
  assumes "upsert_persist store now body db = Inr (r', db')"
  shows "\<exists>i. req_id body = Some i \<and> lookup db' i = Some r' \<and>
           (case lookup db i of
              None \<Rightarrow> up_definitionUpdatedAt r' = Null
            | Some r0 \<Rightarrow> up_definitionUpdatedAt r' =
                (case req_definition body of
                   None \<Rightarrow> up_definitionUpdatedAt r0 | Some d \<Rightarrow> Value now))"
proof (cases "truthy (req_workspaceId body) \<and> truthy (req_name body) \<and>
              req_definition body \<noteq> None \<and> truthy (req_id body)")
  case True
  then obtain i w n d where b: "req_id body = Some i" "req_workspaceId body = Some w"
      "req_name body = Some n" "req_definition body = Some d"
    by (auto simp: truthy_def split: option.splits)
  let ?create = "\<lparr>cr_id = i, cr_workspaceId = w, cr_name = n, cr_definition = d,
                   cr_exampleValue = req_exampleValue body\<rparr>"
  let ?data = "\<lparr>upd_workspaceId = Some w, upd_name = Some n, upd_definition = Some d,
                 upd_definitionUpdatedAt = Some now, upd_exampleValue = req_exampleValue body\<rparr>"
  from assms True b have "store_upsert i ?create ?data db = Inr (r', db')"
    by (simp add: upsert_persist_def store_def Let_def)
  from store_upsert_Inr [OF this] show ?thesis
  proof
    assume "\<exists>r. lookup db i = Some r \<and> r' = apply_update ?data r \<and> lookup db' i = Some r'"
    with b show ?thesis by (auto simp: apply_update_def)
  next
    assume "lookup db i = None \<and> r' = row_of_create ?create \<and>
      lookup db (up_id r') = None \<and> \<not> name_taken (userProperty_table db) r' \<and>
      db' = db\<lparr>userProperty_table := userProperty_table db @ [r']\<rparr>"
    with b show ?thesis by (auto simp: row_of_create_def lookup_append_new)
  qed
next
  case False
  let ?data = "\<lparr>upd_workspaceId = req_workspaceId body, upd_name = req_name body,
                 upd_definition = req_definition body,
                 upd_definitionUpdatedAt = (if req_definition body \<noteq> None then Some now else None),
                 upd_exampleValue = req_exampleValue body\<rparr>"
  from assms False have "store_update (req_id body) ?data db = Inr (r', db')"
    by (auto simp: upsert_persist_def store_def Let_def split: if_splits)
  from store_update_Inr [OF this] show ?thesis
    by (auto simp: apply_update_def split: option.splits)
qed

text \<open>A reply to a request whose name is not protected means the store call succeeded.\<close>

lemma upsert_handler_Reply:
  assumes "\<not> has P (req_name body)"
    and "upsert_handler prisma P validate now body db = (Reply s b, db')"
  shows "\<exists>r'. upsert_persist prisma now body db = Inr (r', db')"
  using assms by (auto simp: upsert_handler_def split: sum.splits Result.splits)

text \<open>The two \<^verbatim>\<open>deleteMany\<close> calls on the reference store: the count is the number
  of rows with the id and a name outside the list.\<close>

lemma store_delete_try_count:
  "fst (delete_try store P i db) =
     Inr (int (length (filter (property_matches i P) (userProperty_table db))))"
  by (simp add: delete_try_def store_def store_deleteMany_assignments_def
      store_deleteMany_properties_def Let_def)

subsection \<open>The PUT handler\<close>

text \<open>Claim C4. When the name in the request body is a protected name, the handler
  replies 400 with no body, whatever the other fields, the store and the client are; no
  store call is made, so the store is the one the request found.\<close>

theorem upsert_protected_name_rejected:
  assumes "n \<in> set P" and "req_name body = Some n"
  shows "upsert_handler prisma P validate now body db = (Reply 400 None, db)"
  using assms by (simp add: upsert_handler_def has_def)

theorem upsert_protected_name_rejected_witness:
  "''id'' \<in> set example_protected \<and>
   upsert_handler store example_protected (schemaValidate example_schema) 10
     \<lparr>req_id = Some ''p2'', req_name = Some ''id'', req_definition = Some ''trait'',
      req_workspaceId = Some ''w1'', req_exampleValue = None\<rparr> example_db =
     (Reply 400 None, example_db)"
  using upsert_protected_name_rejected
    [where n = "''id''" and P = example_protected and prisma = store
       and validate = "schemaValidate example_schema" and now = 10 and db = example_db
       and body = "\<lparr>req_id = Some ''p2'', req_name = Some ''id'', req_definition = Some ''trait'',
                      req_workspaceId = Some ''w1'', req_exampleValue = None\<rparr>"]
  by (simp add: example_protected_def)

text \<open>Claim C6. When the name is not protected and the store call succeeds, the handler
  validates the definition of the row the store returned: the reply is 500 with no body
  exactly when that validation fails, and the store is the one the call left. This holds
  for every client and every validator, on the upsert branch and on the update branch.\<close>

theorem upsert_invalid_stored_definition:
  assumes "\<not> has P (req_name body)"
    and "upsert_persist prisma now body db = Inr (userProperty, db')"
  shows "(validate (up_definition userProperty) = Err \<longrightarrow>
            upsert_handler prisma P validate now body db = (Reply 500 None, db')) \<and>
         (upsert_handler prisma P validate now body db = (Reply 500 None, db') \<longrightarrow>
            validate (up_definition userProperty) = Err)"
  using assms by (simp add: upsert_handler_def split: Result.splits)

theorem upsert_invalid_stored_definition_witness:
  "\<not> has example_protected None \<and>
   upsert_persist store 10
     \<lparr>req_id = Some ''p3'', req_name = None, req_definition = None,
      req_workspaceId = None, req_exampleValue = Some ''x''\<rparr> example_db =
     Inr (\<lparr>up_id = ''p3'', up_workspaceId = ''w1'', up_name = ''legacy'',
           up_definition = ''malformed'', up_definitionUpdatedAt = Null,
           up_exampleValue = Value ''x''\<rparr>,
          example_db\<lparr>userProperty_table :=
            [\<lparr>up_id = ''p1'', up_workspaceId = ''w1'', up_name = ''id'', up_definition = ''id'',
              up_definitionUpdatedAt = Value 5, up_exampleValue = Null\<rparr>,
             \<lparr>up_id = ''p2'', up_workspaceId = ''w1'', up_name = ''email'',
              up_definition = ''trait'', up_definitionUpdatedAt = Value 7,
              up_exampleValue = Value ''a@b.c''\<rparr>,
             \<lparr>up_id = ''p3'', up_workspaceId = ''w1'', up_name = ''legacy'',
              up_definition = ''malformed'', up_definitionUpdatedAt = Null,
              up_exampleValue = Value ''x''\<rparr>]\<rparr>) \<and>
   schemaValidate example_schema ''malformed'' = Err \<and>
   upsert_handler store example_protected (schemaValidate example_schema) 10
     \<lparr>req_id = Some ''p3'', req_name = None, req_definition = None,
      req_workspaceId = None, req_exampleValue = Some ''x''\<rparr> example_db =
     (Reply 500 None,
      example_db\<lparr>userProperty_table :=
            [\<lparr>up_id = ''p1'', up_workspaceId = ''w1'', up_name = ''id'', up_definition = ''id'',
              up_definitionUpdatedAt = Value 5, up_exampleValue = Null\<rparr>,
             \<lparr>up_id = ''p2'', up_workspaceId = ''w1'', up_name = ''email'',
              up_definition = ''trait'', up_definitionUpdatedAt = Value 7,
              up_exampleValue = Value ''a@b.c''\<rparr>,
             \<lparr>up_id = ''p3'', up_workspaceId = ''w1'', up_name = ''legacy'',
              up_definition = ''malformed'', up_definitionUpdatedAt = Null,
              up_exampleValue = Value ''x''\<rparr>]\<rparr>)"
proof -
  let ?body = "\<lparr>req_id = Some ''p3'', req_name = None, req_definition = None,
      req_workspaceId = None, req_exampleValue = Some ''x''\<rparr>"
  let ?row = "\<lparr>up_id = ''p3'', up_workspaceId = ''w1'', up_name = ''legacy'',
           up_definition = ''malformed'', up_definitionUpdatedAt = Null,
           up_exampleValue = Value ''x''\<rparr>"
  have name: "\<not> has example_protected (req_name ?body)"
    by (simp add: has_def)
  have persist: "upsert_persist store 10 ?body example_db =
     Inr (?row, example_db\<lparr>userProperty_table :=
            [\<lparr>up_id = ''p1'', up_workspaceId = ''w1'', up_name = ''id'', up_definition = ''id'',
              up_definitionUpdatedAt = Value 5, up_exampleValue = Null\<rparr>,
             \<lparr>up_id = ''p2'', up_workspaceId = ''w1'', up_name = ''email'',
              up_definition = ''trait'', up_definitionUpdatedAt = Value 7,
              up_exampleValue = Value ''a@b.c''\<rparr>, ?row]\<rparr>)"
    by (simp add: upsert_persist_def truthy_def store_def store_update_def lookup_def
        name_taken_def apply_update_def example_db_def Let_def)
  have invalid: "schemaValidate example_schema (up_definition ?row) = Err"
    by (simp add: schemaValidate_def example_schema_def)
  from upsert_invalid_stored_definition
         [OF name persist, where validate = "schemaValidate example_schema"] invalid persist
  show ?thesis by (simp add: has_def)
qed

text \<open>Claim C8. When the handler replies 200, the body is the resource made of the id,
  the name and the workspaceId of the row the store call returned, of the value the
  validator gave for that row's definition, and of the row's exampleValue, absent when the
  stored one is null. This holds for every client and every validator; on the reference
  store the returned row is the row stored under the id after the call
  (\<open>upsert_persist_store_Inr\<close>).\<close>

theorem upsert_resource_shape:
  assumes "upsert_handler prisma P validate now body db = (Reply 200 b, db')"
  shows "\<exists>userProperty v.
           upsert_persist prisma now body db = Inr (userProperty, db') \<and>
           validate (up_definition userProperty) = Ok v \<and>
           b = Some \<lparr>res_id = up_id userProperty, res_name = up_name userProperty,
                     res_workspaceId = up_workspaceId userProperty, res_definition = v,
                     res_exampleValue =
                       (case up_exampleValue userProperty of
                          Null \<Rightarrow> None | Value e \<Rightarrow> Some e)\<rparr>"
  using assms
  by (auto simp: upsert_handler_def resource_of_def
      split: if_splits sum.splits Result.splits prod.splits)

theorem upsert_resource_shape_witness:
  "upsert_handler store example_protected (schemaValidate example_schema) 10
     \<lparr>req_id = Some ''p4'', req_name = Some ''plan'', req_definition = Some ''trait'',
      req_workspaceId = Some ''w1'', req_exampleValue = None\<rparr> example_db =
     (Reply 200 (Some \<lparr>res_id = ''p4'', res_name = ''plan'', res_workspaceId = ''w1'',
                       res_definition = ''trait'', res_exampleValue = None\<rparr>),
      example_db\<lparr>userProperty_table := userProperty_table example_db @
        [\<lparr>up_id = ''p4'', up_workspaceId = ''w1'', up_name = ''plan'', up_definition = ''trait'',
          up_definitionUpdatedAt = Null, up_exampleValue = Null\<rparr>]\<rparr>) \<and>
   (\<exists>userProperty v.
      upsert_persist store 10
        \<lparr>req_id = Some ''p4'', req_name = Some ''plan'', req_definition = Some ''trait'',
         req_workspaceId = Some ''w1'', req_exampleValue = None\<rparr> example_db =
        Inr (userProperty,
          example_db\<lparr>userProperty_table := userProperty_table example_db @
            [\<lparr>up_id = ''p4'', up_workspaceId = ''w1'', up_name = ''plan'',
              up_definition = ''trait'', up_definitionUpdatedAt = Null,
              up_exampleValue = Null\<rparr>]\<rparr>) \<and>
      up_exampleValue userProperty = Null \<and>
      schemaValidate example_schema (up_definition userProperty) = Ok v \<and>
      Some \<lparr>res_id = ''p4'', res_name = ''plan'', res_workspaceId = ''w1'',
             res_definition = ''trait'', res_exampleValue = None\<rparr> =
      Some \<lparr>res_id = up_id userProperty, res_name = up_name userProperty,
             res_workspaceId = up_workspaceId userProperty, res_definition = v,
             res_exampleValue =
               (case up_exampleValue userProperty of Null \<Rightarrow> None | Value e \<Rightarrow> Some e)\<rparr>)"
proof -
  have run: "upsert_handler store example_protected (schemaValidate example_schema) 10
     \<lparr>req_id = Some ''p4'', req_name = Some ''plan'', req_definition = Some ''trait'',
      req_workspaceId = Some ''w1'', req_exampleValue = None\<rparr> example_db =
     (Reply 200 (Some \<lparr>res_id = ''p4'', res_name = ''plan'', res_workspaceId = ''w1'',
                       res_definition = ''trait'', res_exampleValue = None\<rparr>),
      example_db\<lparr>userProperty_table := userProperty_table example_db @
        [\<lparr>up_id = ''p4'', up_workspaceId = ''w1'', up_name = ''plan'', up_definition = ''trait'',
          up_definitionUpdatedAt = Null, up_exampleValue = Null\<rparr>]\<rparr>)"
    by (simp add: example_db_def example_protected_def example_schema_def schemaValidate_def
        upsert_handler_def upsert_persist_def has_def truthy_def store_def store_upsert_def
        lookup_def name_taken_def row_of_create_def resource_of_def Let_def)
  from upsert_resource_shape [OF run] run show ?thesis
    by (auto split: nullable.splits)
qed

text \<open>Claim C9. With the validator modelled from the specification, the definition in the
  body of a 200 reply validates again against the same schema, to the same value.\<close>

theorem upsert_resource_revalidates:
  assumes "upsert_handler prisma P (schemaValidate schema) now body db =
             (Reply 200 (Some res), db')"
  shows "schemaValidate schema (res_definition res) = Ok (res_definition res)"
  using assms
  by (auto simp: upsert_handler_def resource_of_def schemaValidate_def
      split: if_splits sum.splits Result.splits prod.splits)

theorem upsert_resource_revalidates_witness:
  "upsert_handler store example_protected (schemaValidate example_schema) 10
     \<lparr>req_id = Some ''p2'', req_name = None, req_definition = None,
      req_workspaceId = None, req_exampleValue = None\<rparr> example_db =
     (Reply 200 (Some \<lparr>res_id = ''p2'', res_name = ''email'', res_workspaceId = ''w1'',
                       res_definition = ''trait'', res_exampleValue = Some ''a@b.c''\<rparr>),
      example_db) \<and>
   schemaValidate example_schema ''trait'' = Ok ''trait''"
proof -
  have run: "upsert_handler store example_protected (schemaValidate example_schema) 10
     \<lparr>req_id = Some ''p2'', req_name = None, req_definition = None,
      req_workspaceId = None, req_exampleValue = None\<rparr> example_db =
     (Reply 200 (Some \<lparr>res_id = ''p2'', res_name = ''email'', res_workspaceId = ''w1'',
                       res_definition = ''trait'', res_exampleValue = Some ''a@b.c''\<rparr>),
      example_db)"
    by (simp add: example_db_def example_protected_def example_schema_def schemaValidate_def
        upsert_handler_def upsert_persist_def has_def truthy_def store_def store_update_def
        lookup_def name_taken_def apply_update_def resource_of_def Let_def)
  from upsert_resource_revalidates [OF run] run show ?thesis by simp
qed

text \<open>Claim C5, as stated, at a concrete request. The row \<open>p2\<close> was stamped at time 7;
  a complete request for it arrives when the clock reads 3. The handler replies 200 and
  stores 3 over 7: the new value is the clock's, and it is below the previous one.\<close>

theorem upsert_definitionUpdatedAt_below_previous:
  "lookup example_db ''p2'' =
     Some \<lparr>up_id = ''p2'', up_workspaceId = ''w1'', up_name = ''email'',
            up_definition = ''trait'', up_definitionUpdatedAt = Value 7,
            up_exampleValue = Value ''a@b.c''\<rparr> \<and>
   upsert_handler store example_protected (schemaValidate example_schema) 3
     \<lparr>req_id = Some ''p2'', req_name = Some ''email'', req_definition = Some ''trait'',
      req_workspaceId = Some ''w1'', req_exampleValue = None\<rparr> example_db =
     (Reply 200 (Some \<lparr>res_id = ''p2'', res_name = ''email'', res_workspaceId = ''w1'',
                       res_definition = ''trait'', res_exampleValue = Some ''a@b.c''\<rparr>),
      example_db\<lparr>userProperty_table :=
        [\<lparr>up_id = ''p1'', up_workspaceId = ''w1'', up_name = ''id'', up_definition = ''id'',
          up_definitionUpdatedAt = Value 5, up_exampleValue = Null\<rparr>,
         \<lparr>up_id = ''p2'', up_workspaceId = ''w1'', up_name = ''email'', up_definition = ''trait'',
          up_definitionUpdatedAt = Value 3, up_exampleValue = Value ''a@b.c''\<rparr>,
         \<lparr>up_id = ''p3'', up_workspaceId = ''w1'', up_name = ''legacy'',
          up_definition = ''malformed'', up_definitionUpdatedAt = Null,
          up_exampleValue = Null\<rparr>]\<rparr>) \<and>
   \<not> (7::timestamp) \<le> 3"
  by (simp add: example_db_def example_protected_def example_schema_def schemaValidate_def
      upsert_handler_def upsert_persist_def has_def truthy_def store_def store_upsert_def
      store_update_def lookup_def name_taken_def apply_update_def resource_of_def Let_def)

text \<open>Claim C5, amended. On the reference store, for a request whose name is not protected
  and which the handler answers with a reply (the store call succeeded): a row inserted
  under the id has no \<open>definitionUpdatedAt\<close>; a row that existed has it set to the
  clock's value when the request carried a definition, whatever the previous value was;
  and keeps its previous value when the request carried none.\<close>

theorem upsert_definitionUpdatedAt:
  assumes "\<not> has P (req_name body)"
    and "upsert_handler store P validate now body db = (Reply s b, db')"
    and "req_id body = Some i"
  shows "(lookup db i = None \<longrightarrow>
            (\<exists>r. lookup db' i = Some r \<and> up_definitionUpdatedAt r = Null)) \<and>
         (\<forall>r0 d. lookup db i = Some r0 \<and> req_definition body = Some d \<longrightarrow>
            (\<exists>r. lookup db' i = Some r \<and> up_definitionUpdatedAt r = Value now)) \<and>
         (\<forall>r0. lookup db i = Some r0 \<and> req_definition body = None \<longrightarrow>
            (\<exists>r. lookup db' i = Some r \<and>
                 up_definitionUpdatedAt r = up_definitionUpdatedAt r0))"
proof -
  from upsert_handler_Reply [OF assms(1,2)] obtain r'
    where "upsert_persist store now body db = Inr (r', db')" ..
  from upsert_persist_store_Inr [OF this] assms(3) show ?thesis
    by (auto split: option.splits)
qed

theorem upsert_definitionUpdatedAt_witness:
  "(lookup example_db ''p4'' = None \<and>
    fst (upsert_handler store example_protected (schemaValidate example_schema) 10
      \<lparr>req_id = Some ''p4'', req_name = Some ''plan'', req_definition = Some ''trait'',
       req_workspaceId = Some ''w1'', req_exampleValue = None\<rparr> example_db) =
      Reply 200 (Some \<lparr>res_id = ''p4'', res_name = ''plan'', res_workspaceId = ''w1'',
                        res_definition = ''trait'', res_exampleValue = None\<rparr>) \<and>
    (\<exists>r. lookup (snd (upsert_handler store example_protected (schemaValidate example_schema) 10
      \<lparr>req_id = Some ''p4'', req_name = Some ''plan'', req_definition = Some ''trait'',
       req_workspaceId = Some ''w1'', req_exampleValue = None\<rparr> example_db)) ''p4'' = Some r \<and>
       up_definitionUpdatedAt r = Null)) \<and>
   (fst (upsert_handler store example_protected (schemaValidate example_schema) 10
      \<lparr>req_id = Some ''p2'', req_name = Some ''email'', req_definition = Some ''trait'',
       req_workspaceId = Some ''w1'', req_exampleValue = None\<rparr> example_db) =
      Reply 200 (Some \<lparr>res_id = ''p2'', res_name = ''email'', res_workspaceId = ''w1'',
                        res_definition = ''trait'', res_exampleValue = Some ''a@b.c''\<rparr>) \<and>
    (\<exists>r. lookup (snd (upsert_handler store example_protected (schemaValidate example_schema) 10
      \<lparr>req_id = Some ''p2'', req_name = Some ''email'', req_definition = Some ''trait'',
       req_workspaceId = Some ''w1'', req_exampleValue = None\<rparr> example_db)) ''p2'' = Some r \<and>
       up_definitionUpdatedAt r = Value 10)) \<and>
   (fst (upsert_handler store example_protected (schemaValidate example_schema) 10
      \<lparr>req_id = Some ''p2'', req_name = Some ''email'', req_definition = None,
       req_workspaceId = Some ''w1'', req_exampleValue = Some ''q@r.s''\<rparr> example_db) =
      Reply 200 (Some \<lparr>res_id = ''p2'', res_name = ''email'', res_workspaceId = ''w1'',
                        res_definition = ''trait'', res_exampleValue = Some ''q@r.s''\<rparr>) \<and>
    (\<exists>r. lookup (snd (upsert_handler store example_protected (schemaValidate example_schema) 10
      \<lparr>req_id = Some ''p2'', req_name = Some ''email'', req_definition = None,
       req_workspaceId = Some ''w1'', req_exampleValue = Some ''q@r.s''\<rparr> example_db)) ''p2'' = Some r \<and>
       up_definitionUpdatedAt r = Value 7))"
proof -
  let ?h = "upsert_handler store example_protected (schemaValidate example_schema) 10"
  let ?b1 = "\<lparr>req_id = Some ''p4'', req_name = Some ''plan'', req_definition = Some ''trait'',
       req_workspaceId = Some ''w1'', req_exampleValue = None\<rparr>"
  let ?b2 = "\<lparr>req_id = Some ''p2'', req_name = Some ''email'', req_definition = Some ''trait'',
       req_workspaceId = Some ''w1'', req_exampleValue = None\<rparr>"
  let ?b3 = "\<lparr>req_id = Some ''p2'', req_name = Some ''email'', req_definition = None,
       req_workspaceId = Some ''w1'', req_exampleValue = Some ''q@r.s''\<rparr>"
  have l4: "lookup example_db ''p4'' = None"
    by (simp add: lookup_def example_db_def)
  have l2: "lookup example_db ''p2'' =
      Some \<lparr>up_id = ''p2'', up_workspaceId = ''w1'', up_name = ''email'',
             up_definition = ''trait'', up_definitionUpdatedAt = Value 7,
             up_exampleValue = Value ''a@b.c''\<rparr>"
    by (simp add: lookup_def example_db_def)
  have f1: "fst (?h ?b1 example_db) =
      Reply 200 (Some \<lparr>res_id = ''p4'', res_name = ''plan'', res_workspaceId = ''w1'',
                        res_definition = ''trait'', res_exampleValue = None\<rparr>)"
    by (simp add: example_db_def example_protected_def example_schema_def schemaValidate_def
        upsert_handler_def upsert_persist_def has_def truthy_def store_def store_upsert_def
        lookup_def name_taken_def row_of_create_def resource_of_def Let_def)
  have f2: "fst (?h ?b2 example_db) =
      Reply 200 (Some \<lparr>res_id = ''p2'', res_name = ''email'', res_workspaceId = ''w1'',
                        res_definition = ''trait'', res_exampleValue = Some ''a@b.c''\<rparr>)"
    by (simp add: example_db_def example_protected_def example_schema_def schemaValidate_def
        upsert_handler_def upsert_persist_def has_def truthy_def store_def store_upsert_def
        store_update_def lookup_def name_taken_def apply_update_def resource_of_def Let_def)
  have f3: "fst (?h ?b3 example_db) =
      Reply 200 (Some \<lparr>res_id = ''p2'', res_name = ''email'', res_workspaceId = ''w1'',
                        res_definition = ''trait'', res_exampleValue = Some ''q@r.s''\<rparr>)"
    by (simp add: example_db_def example_protected_def example_schema_def schemaValidate_def
        upsert_handler_def upsert_persist_def has_def truthy_def store_def store_update_def
        lookup_def name_taken_def apply_update_def resource_of_def Let_def)
  have n: "\<not> has example_protected (req_name ?b1)" "\<not> has example_protected (req_name ?b2)"
      "\<not> has example_protected (req_name ?b3)"
    by (simp_all add: has_def example_protected_def)
  have e1: "?h ?b1 example_db = (Reply 200 (Some \<lparr>res_id = ''p4'', res_name = ''plan'',
      res_workspaceId = ''w1'', res_definition = ''trait'', res_exampleValue = None\<rparr>),
      snd (?h ?b1 example_db))"
    using f1 by (simp add: prod_eq_iff)
  have e2: "?h ?b2 example_db = (Reply 200 (Some \<lparr>res_id = ''p2'', res_name = ''email'',
      res_workspaceId = ''w1'', res_definition = ''trait'', res_exampleValue = Some ''a@b.c''\<rparr>),
      snd (?h ?b2 example_db))"
    using f2 by (simp add: prod_eq_iff)
  have e3: "?h ?b3 example_db = (Reply 200 (Some \<lparr>res_id = ''p2'', res_name = ''email'',
      res_workspaceId = ''w1'', res_definition = ''trait'', res_exampleValue = Some ''q@r.s''\<rparr>),
      snd (?h ?b3 example_db))"
    using f3 by (simp add: prod_eq_iff)
  from upsert_definitionUpdatedAt [OF n(1) e1, where i = "''p4''"]
       upsert_definitionUpdatedAt [OF n(2) e2, where i = "''p2''"]
       upsert_definitionUpdatedAt [OF n(3) e3, where i = "''p2''"]
       l4 l2 f1 f2 f3
  show ?thesis by auto
qed

text \<open>Claim C10. On the reference store, a request that carries the id of a stored row
  together with another workspaceId, a name and a definition is not compared with the
  workspace that owns the row: when the name is not protected and is free in the other
  workspace, the handler replies 200 and the row under the id now belongs to the other
  workspace.\<close>

theorem upsert_moves_workspace:
  assumes "lookup db i = Some r0" and "up_workspaceId r0 = w1" and "w2 \<noteq> w1"
    and "i \<noteq> []" and "w2 \<noteq> []" and "n \<noteq> []" and "n \<notin> set P"
    and "\<not> name_taken (userProperty_table db) (r0\<lparr>up_workspaceId := w2, up_name := n\<rparr>)"
    and "validate d = Ok v"
  shows "\<exists>res db' r.
           upsert_handler store P validate now
             \<lparr>req_id = Some i, req_name = Some n, req_definition = Some d,
              req_workspaceId = Some w2, req_exampleValue = e\<rparr> db =
             (Reply 200 (Some res), db') \<and>
           res_id res = i \<and> res_workspaceId res = w2 \<and>
           lookup db' i = Some r \<and> up_workspaceId r = w2 \<and>
           up_workspaceId r \<noteq> up_workspaceId r0"
proof -
  let ?data = "\<lparr>upd_workspaceId = Some w2, upd_name = Some n, upd_definition = Some d,
                 upd_definitionUpdatedAt = Some now, upd_exampleValue = e\<rparr>"
  let ?r = "apply_update ?data r0"
  let ?db' = "db\<lparr>userProperty_table :=
                 map (\<lambda>q. if up_id q = i then ?r else q) (userProperty_table db)\<rparr>"
  from assms(1) have id0: "up_id r0 = i" by (auto dest: lookup_SomeD)
  have nt: "\<not> name_taken (userProperty_table db) ?r"
    using assms(8) by (simp add: name_taken_def apply_update_def)
  have "store_update (Some i) ?data db = Inr (?r, ?db')"
    using assms(1) nt by (simp add: store_update_def Let_def)
  then have "store_upsert i \<lparr>cr_id = i, cr_workspaceId = w2, cr_name = n, cr_definition = d,
                   cr_exampleValue = e\<rparr> ?data db = Inr (?r, ?db')"
    using assms(1) by (simp add: store_upsert_def)
  then have persist: "upsert_persist store now
             \<lparr>req_id = Some i, req_name = Some n, req_definition = Some d,
              req_workspaceId = Some w2, req_exampleValue = e\<rparr> db = Inr (?r, ?db')"
    using assms(4,5,6) by (simp add: upsert_persist_def store_def truthy_def Let_def)
  have def: "up_definition ?r = d" and ws: "up_workspaceId ?r = w2" and "up_id ?r = i"
    using id0 by (simp_all add: apply_update_def)
  have look: "lookup ?db' i = Some ?r"
    using assms(1) id0 by (simp add: lookup_replace)
  show ?thesis
    using persist assms(2,3,7,9) def ws look id0
    by (simp add: upsert_handler_def has_def resource_of_def)
qed

theorem upsert_moves_workspace_witness:
  "lookup example_db ''p2'' =
     Some \<lparr>up_id = ''p2'', up_workspaceId = ''w1'', up_name = ''email'',
            up_definition = ''trait'', up_definitionUpdatedAt = Value 7,
            up_exampleValue = Value ''a@b.c''\<rparr> \<and>
   ''email'' \<notin> set example_protected \<and>
   schemaValidate example_schema ''trait'' = Ok ''trait'' \<and>
   (\<exists>res db' r.
      upsert_handler store example_protected (schemaValidate example_schema) 10
        \<lparr>req_id = Some ''p2'', req_name = Some ''email'', req_definition = Some ''trait'',
         req_workspaceId = Some ''w2'', req_exampleValue = None\<rparr> example_db =
        (Reply 200 (Some res), db') \<and>
      res_id res = ''p2'' \<and> res_workspaceId res = ''w2'' \<and>
      lookup db' ''p2'' = Some r \<and> up_workspaceId r = ''w2'' \<and> up_workspaceId r \<noteq> ''w1'')"
proof -
  let ?r0 = "\<lparr>up_id = ''p2'', up_workspaceId = ''w1'', up_name = ''email'',
            up_definition = ''trait'', up_definitionUpdatedAt = Value 7,
            up_exampleValue = Value ''a@b.c''\<rparr>"
  have l2: "lookup example_db ''p2'' = Some ?r0"
    by (simp add: lookup_def example_db_def)
  have free: "\<not> name_taken (userProperty_table example_db)
                 (?r0\<lparr>up_workspaceId := ''w2'', up_name := ''email''\<rparr>)"
    by (simp add: name_taken_def example_db_def)
  have np: "''email'' \<notin> set example_protected"
    by (simp add: example_protected_def)
  have ok: "schemaValidate example_schema ''trait'' = Ok ''trait''"
    by (simp add: schemaValidate_def example_schema_def)
  from upsert_moves_workspace
         [where db = example_db and i = "''p2''" and ?r0.0 = ?r0 and ?w1.0 = "''w1''"
            and ?w2.0 = "''w2''" and n = "''email''" and P = example_protected
            and validate = "schemaValidate example_schema" and d = "''trait''"
            and v = "''trait''" and now = 10 and e = None]
       l2 np free ok
  show ?thesis by simp
qed

text \<open>Claim C2, as stated, at a concrete request: the body has a workspaceId, a name that
  is not protected and a definition, and no id. The handler takes the update branch, the
  update names no row and raises, the store is unchanged, and the listing of the workspace
  afterwards holds the two valid properties it held before and none named \<open>plan\<close>.\<close>

theorem upsert_without_id_creates_nothing:
  "upsert_handler store example_protected (schemaValidate example_schema) 10
     \<lparr>req_id = None, req_name = Some ''plan'', req_definition = Some ''trait'',
      req_workspaceId = Some ''w1'', req_exampleValue = None\<rparr> example_db =
     (Throw PrismaClientValidationError, example_db) \<and>
   get_handler (findAllUserProperties (schemaValidate example_schema)) ''w1'' example_db =
     Reply 200 (Some
       [\<lparr>res_id = ''p1'', res_name = ''id'', res_workspaceId = ''w1'', res_definition = ''id'',
         res_exampleValue = None\<rparr>,
        \<lparr>res_id = ''p2'', res_name = ''email'', res_workspaceId = ''w1'',
         res_definition = ''trait'', res_exampleValue = Some ''a@b.c''\<rparr>])"
  by (simp add: example_db_def example_protected_def example_schema_def schemaValidate_def
      upsert_handler_def upsert_persist_def has_def truthy_def store_def store_update_def
      Let_def get_handler_def findAllUserProperties_def List.map_filter_def resource_of_def)

text \<open>Claim C2, amended. On the reference store, a request that carries an id no stored
  row has, together with a workspaceId, a name that is not protected and a definition (all
  non-empty, the name free in the workspace, the definition valid), makes the handler
  insert a row under that id with the fields of the request and reply 200 with the
  resource; the GET handler then lists that resource for the workspace.\<close>

theorem upsert_with_new_id_creates_row:
  assumes "i \<noteq> []" and "w \<noteq> []" and "n \<noteq> []" and "n \<notin> set P"
    and "lookup db i = None"
    and "\<not> list_ex (\<lambda>q. up_workspaceId q = w \<and> up_name q = n) (userProperty_table db)"
    and "validate d = Ok v"
  shows "\<exists>db'.
           upsert_handler store P validate now
             \<lparr>req_id = Some i, req_name = Some n, req_definition = Some d,
              req_workspaceId = Some w, req_exampleValue = e\<rparr> db =
             (Reply 200 (Some \<lparr>res_id = i, res_name = n, res_workspaceId = w,
                              res_definition = v, res_exampleValue = e\<rparr>), db') \<and>
           userProperty_table db' = userProperty_table db @
             [\<lparr>up_id = i, up_workspaceId = w, up_name = n, up_definition = d,
               up_definitionUpdatedAt = Null,
               up_exampleValue = (case e of None \<Rightarrow> Null | Some x \<Rightarrow> Value x)\<rparr>] \<and>
           (\<exists>properties.
              get_handler (findAllUserProperties validate) w db' =
                Reply 200 (Some properties) \<and>
              \<lparr>res_id = i, res_name = n, res_workspaceId = w, res_definition = v,
                res_exampleValue = e\<rparr> \<in> set properties)"
proof -
  let ?create = "\<lparr>cr_id = i, cr_workspaceId = w, cr_name = n, cr_definition = d,
                   cr_exampleValue = e\<rparr>"
  let ?data = "\<lparr>upd_workspaceId = Some w, upd_name = Some n, upd_definition = Some d,
                 upd_definitionUpdatedAt = Some now, upd_exampleValue = e\<rparr>"
  let ?r = "row_of_create ?create"
  let ?db' = "db\<lparr>userProperty_table := userProperty_table db @ [?r]\<rparr>"
  have nt: "\<not> name_taken (userProperty_table db) ?r"
    using assms(6) by (auto simp: name_taken_def row_of_create_def list_ex_iff)
  have "store_upsert i ?create ?data db = Inr (?r, ?db')"
    using assms(5) nt by (simp add: store_upsert_def Let_def row_of_create_def)
  then have persist: "upsert_persist store now
             \<lparr>req_id = Some i, req_name = Some n, req_definition = Some d,
              req_workspaceId = Some w, req_exampleValue = e\<rparr> db = Inr (?r, ?db')"
    using assms(1,2,3) by (simp add: upsert_persist_def store_def truthy_def Let_def)
  have res: "resource_of ?r v =
      \<lparr>res_id = i, res_name = n, res_workspaceId = w, res_definition = v,
       res_exampleValue = e\<rparr>"
    by (simp add: resource_of_def row_of_create_def split: option.splits)
  have "\<exists>properties.
          get_handler (findAllUserProperties validate) w ?db' = Reply 200 (Some properties) \<and>
          resource_of ?r v \<in> set properties"
    using assms(7)
    by (force simp: get_handler_def findAllUserProperties_def List.map_filter_def
        row_of_create_def)
  with persist assms(4,7) res show ?thesis
    by (simp add: upsert_handler_def has_def row_of_create_def)
qed

theorem upsert_with_new_id_creates_row_witness:
  "''plan'' \<notin> set example_protected \<and> lookup example_db ''p4'' = None \<and>
   \<not> list_ex (\<lambda>q. up_workspaceId q = ''w1'' \<and> up_name q = ''plan'')
        (userProperty_table example_db) \<and>
   schemaValidate example_schema ''trait'' = Ok ''trait'' \<and>
   (\<exists>db'.
      upsert_handler store example_protected (schemaValidate example_schema) 10
        \<lparr>req_id = Some ''p4'', req_name = Some ''plan'', req_definition = Some ''trait'',
         req_workspaceId = Some ''w1'', req_exampleValue = None\<rparr> example_db =
        (Reply 200 (Some \<lparr>res_id = ''p4'', res_name = ''plan'', res_workspaceId = ''w1'',
                          res_definition = ''trait'', res_exampleValue = None\<rparr>), db') \<and>
      userProperty_table db' = userProperty_table example_db @
        [\<lparr>up_id = ''p4'', up_workspaceId = ''w1'', up_name = ''plan'', up_definition = ''trait'',
          up_definitionUpdatedAt = Null, up_exampleValue = Null\<rparr>] \<and>
      (\<exists>properties.
         get_handler (findAllUserProperties (schemaValidate example_schema)) ''w1'' db' =
           Reply 200 (Some properties) \<and>
         \<lparr>res_id = ''p4'', res_name = ''plan'', res_workspaceId = ''w1'',
           res_definition = ''trait'', res_exampleValue = None\<rparr> \<in> set properties))"
proof -
  have np: "''plan'' \<notin> set example_protected"
    by (simp add: example_protected_def)
  have l4: "lookup example_db ''p4'' = None"
    by (simp add: lookup_def example_db_def)
  have free: "\<not> list_ex (\<lambda>q. up_workspaceId q = ''w1'' \<and> up_name q = ''plan'')
        (userProperty_table example_db)"
    by (simp add: example_db_def)
  have ok: "schemaValidate example_schema ''trait'' = Ok ''trait''"
    by (simp add: schemaValidate_def example_schema_def)
  from upsert_with_new_id_creates_row
         [where i = "''p4''" and w = "''w1''" and n = "''plan''" and P = example_protected
            and db = example_db and validate = "schemaValidate example_schema"
            and d = "''trait''" and v = "''trait''" and now = 10 and e = None]
       np l4 free ok
  show ?thesis by simp
qed

subsection \<open>The DELETE handler\<close>

text \<open>Claim C3. For every client: an exception of either \<^verbatim>\<open>deleteMany\<close> call that
  is a known request error with code P2025 (record not found) or P2023 (malformed
  identifier) becomes the reply 404, and every other exception leaves the handler as it
  is; when both calls return, the reply is 404 for a count of zero (or less) and 204 with
  no body otherwise. On the reference store the count is zero exactly when every row with
  the id has a protected name, which includes the case that no row has the id.\<close>

theorem delete_handler_result:
  "(\<forall>e. userPropertyAssignment_deleteMany prisma i P db = Inl e \<longrightarrow>
      delete_handler prisma P i db =
        (if e = PrismaClientKnownRequestError ''P2025'' \<or>
            e = PrismaClientKnownRequestError ''P2023''
         then Reply 404 None else Throw e, db)) \<and>
   (\<forall>k db1 e. userPropertyAssignment_deleteMany prisma i P db = Inr (k, db1) \<and>
      userProperty_deleteMany prisma i P db1 = Inl e \<longrightarrow>
      delete_handler prisma P i db =
        (if e = PrismaClientKnownRequestError ''P2025'' \<or>
            e = PrismaClientKnownRequestError ''P2023''
         then Reply 404 None else Throw e, db1)) \<and>
   (\<forall>k db1 n db2. userPropertyAssignment_deleteMany prisma i P db = Inr (k, db1) \<and>
      userProperty_deleteMany prisma i P db1 = Inr (n, db2) \<longrightarrow>
      delete_handler prisma P i db =
        (if n \<le> 0 then Reply 404 None else Reply 204 None, db2)) \<and>
   ((\<forall>r \<in> set (userProperty_table sdb). up_id r = i \<longrightarrow> up_name r \<in> set P) \<longrightarrow>
      fst (delete_handler store P i sdb) = Reply 404 None) \<and>
   ((\<exists>r \<in> set (userProperty_table sdb). up_id r = i \<and> up_name r \<notin> set P) \<longrightarrow>
      fst (delete_handler store P i sdb) = Reply 204 None)"
proof -
  let ?mapped = "\<lambda>e. if e = PrismaClientKnownRequestError ''P2025'' \<or>
                        e = PrismaClientKnownRequestError ''P2023''
                     then Reply 404 None else Throw e"
  have catch: "delete_catch e = ?mapped e" for e
    by (cases e) (simp_all add: delete_catch_def)
  have c1: "\<forall>e. userPropertyAssignment_deleteMany prisma i P db = Inl e \<longrightarrow>
      delete_handler prisma P i db = (?mapped e, db)"
    by (simp add: delete_handler_def delete_try_def catch)
  have c2: "\<forall>k db1 e. userPropertyAssignment_deleteMany prisma i P db = Inr (k, db1) \<and>
      userProperty_deleteMany prisma i P db1 = Inl e \<longrightarrow>
      delete_handler prisma P i db = (?mapped e, db1)"
    by (simp add: delete_handler_def delete_try_def catch)
  have c3: "\<forall>k db1 n db2. userPropertyAssignment_deleteMany prisma i P db = Inr (k, db1) \<and>
      userProperty_deleteMany prisma i P db1 = Inr (n, db2) \<longrightarrow>
      delete_handler prisma P i db =
        (if n \<le> 0 then Reply 404 None else Reply 204 None, db2)"
    by (simp add: delete_handler_def delete_try_def)
  have count: "fst (delete_handler store P i sdb) =
        (if filter (property_matches i P) (userProperty_table sdb) = []
         then Reply 404 None else Reply 204 None)"
    using store_delete_try_count [of P i sdb]
    by (cases "delete_try store P i sdb") (auto simp: delete_handler_def)
  have c4: "(\<forall>r \<in> set (userProperty_table sdb). up_id r = i \<longrightarrow> up_name r \<in> set P) \<longrightarrow>
      fst (delete_handler store P i sdb) = Reply 404 None"
    unfolding count by (auto simp: filter_empty_conv property_matches_def)
  have c5: "(\<exists>r \<in> set (userProperty_table sdb). up_id r = i \<and> up_name r \<notin> set P) \<longrightarrow>
      fst (delete_handler store P i sdb) = Reply 204 None"
    unfolding count by (auto simp: filter_empty_conv property_matches_def)
  from c1 c2 c3 c4 c5 show ?thesis by (intro conjI)
qed

theorem delete_handler_result_witness:
  "delete_handler (failing (PrismaClientKnownRequestError ''P2023'')) example_protected
     ''not-a-uuid'' example_db = (Reply 404 None, example_db) \<and>
   delete_handler (failing (PrismaClientKnownRequestError ''P2025'')) example_protected
     ''p2'' example_db = (Reply 404 None, example_db) \<and>
   delete_handler (failing (PrismaClientKnownRequestError ''P2002'')) example_protected
     ''p2'' example_db = (Throw (PrismaClientKnownRequestError ''P2002''), example_db) \<and>
   delete_handler (failing (OtherError ''connection closed'')) example_protected
     ''p2'' example_db = (Throw (OtherError ''connection closed''), example_db) \<and>
   delete_handler store example_protected ''p2'' example_db =
     (Reply 204 None,
      \<lparr>userProperty_table =
         [\<lparr>up_id = ''p1'', up_workspaceId = ''w1'', up_name = ''id'', up_definition = ''id'',
           up_definitionUpdatedAt = Value 5, up_exampleValue = Null\<rparr>,
          \<lparr>up_id = ''p3'', up_workspaceId = ''w1'', up_name = ''legacy'',
           up_definition = ''malformed'', up_definitionUpdatedAt = Null,
           up_exampleValue = Null\<rparr>],
       userPropertyAssignment_table =
         [\<lparr>asg_userPropertyId = ''p1'', asg_userId = ''u1'', asg_content = ''42''\<rparr>]\<rparr>) \<and>
   delete_handler store example_protected ''p9'' example_db = (Reply 404 None, example_db)"
proof -
  have a: "userPropertyAssignment_deleteMany (failing e) i example_protected example_db = Inl e"
    for e :: fault and i
    by (simp add: failing_def)
  have first: "userPropertyAssignment_deleteMany store ''p2'' example_protected example_db =
     Inr (1, example_db\<lparr>userPropertyAssignment_table :=
        [\<lparr>asg_userPropertyId = ''p1'', asg_userId = ''u1'', asg_content = ''42''\<rparr>]\<rparr>)"
    by (simp add: store_def store_deleteMany_assignments_def assignment_matches_def
        example_db_def example_protected_def Let_def)
  have second: "userProperty_deleteMany store ''p2'' example_protected
      (example_db\<lparr>userPropertyAssignment_table :=
        [\<lparr>asg_userPropertyId = ''p1'', asg_userId = ''u1'', asg_content = ''42''\<rparr>]\<rparr>) =
     Inr (1, \<lparr>userProperty_table =
         [\<lparr>up_id = ''p1'', up_workspaceId = ''w1'', up_name = ''id'', up_definition = ''id'',
           up_definitionUpdatedAt = Value 5, up_exampleValue = Null\<rparr>,
          \<lparr>up_id = ''p3'', up_workspaceId = ''w1'', up_name = ''legacy'',
           up_definition = ''malformed'', up_definitionUpdatedAt = Null,
           up_exampleValue = Null\<rparr>],
       userPropertyAssignment_table =
         [\<lparr>asg_userPropertyId = ''p1'', asg_userId = ''u1'', asg_content = ''42''\<rparr>]\<rparr>)"
    by (simp add: store_def store_deleteMany_properties_def property_matches_def
        example_db_def example_protected_def Let_def)
  have first9: "userPropertyAssignment_deleteMany store ''p9'' example_protected example_db =
     Inr (0, example_db)"
    by (simp add: store_def store_deleteMany_assignments_def assignment_matches_def
        example_db_def example_protected_def Let_def)
  have second9: "userProperty_deleteMany store ''p9'' example_protected example_db =
     Inr (0, example_db)"
    by (simp add: store_def store_deleteMany_properties_def property_matches_def
        example_db_def example_protected_def Let_def)
  from delete_handler_result
         [where prisma = "failing (PrismaClientKnownRequestError ''P2023'')"
            and i = "''not-a-uuid''" and P = example_protected and db = example_db
            and sdb = example_db]
       delete_handler_result
         [where prisma = "failing (PrismaClientKnownRequestError ''P2025'')"
            and i = "''p2''" and P = example_protected and db = example_db
            and sdb = example_db]
       delete_handler_result
         [where prisma = "failing (PrismaClientKnownRequestError ''P2002'')"
            and i = "''p2''" and P = example_protected and db = example_db
            and sdb = example_db]
       delete_handler_result
         [where prisma = "failing (OtherError ''connection closed'')"
            and i = "''p2''" and P = example_protected and db = example_db
            and sdb = example_db]
       delete_handler_result
         [where prisma = store and i = "''p2''" and P = example_protected
            and db = example_db and sdb = example_db]
       delete_handler_result
         [where prisma = store and i = "''p9''" and P = example_protected
            and db = example_db and sdb = example_db]
       a first second first9 second9
  show ?thesis by simp
qed

text \<open>Claim C7. On the reference store with distinct ids, deleting the id of a row whose
  name is protected gives the reply 404 and leaves the whole store as it was: the row, its
  assignments and everything else.\<close>

theorem delete_protected_not_found:
  assumes "distinct_ids db" and "lookup db i = Some r" and "up_name r \<in> set P"
  shows "delete_handler store P i db = (Reply 404 None, db)"
proof -
  from assms(2) have r: "r \<in> set (userProperty_table db)" "up_id r = i"
    by (auto dest: lookup_SomeD)
  have only: "q = r" if "q \<in> set (userProperty_table db)" "up_id q = i" for q
    using assms(1) r that by (auto simp: distinct_ids_def distinct_map dest: inj_onD)
  have no_prop: "filter (property_matches i P) (userProperty_table db) = []"
    using only assms(3) by (auto simp: filter_empty_conv property_matches_def)
  have keep_prop:
    "filter (\<lambda>r. \<not> property_matches i P r) (userProperty_table db) = userProperty_table db"
    using only assms(3) by (auto simp: filter_id_conv property_matches_def)
  have no_asg: "filter (assignment_matches (userProperty_table db) i P) asgs = []" for asgs
    using only assms(3) by (auto simp: filter_empty_conv assignment_matches_def list_ex_iff)
  have keep_asg:
    "filter (\<lambda>a. \<not> assignment_matches (userProperty_table db) i P a) asgs = asgs" for asgs
    using only assms(3) by (auto simp: filter_id_conv assignment_matches_def list_ex_iff)
  have first: "store_deleteMany_assignments i P db = Inr (0, db)"
    by (simp add: store_deleteMany_assignments_def Let_def no_asg keep_asg)
  have second: "store_deleteMany_properties i P db = Inr (0, db)"
    unfolding store_deleteMany_properties_def Let_def no_prop keep_prop by simp
  show ?thesis
    by (simp add: delete_handler_def delete_try_def store_def first second)
qed

theorem delete_protected_not_found_witness:
  "distinct_ids example_db \<and>
   lookup example_db ''p1'' =
     Some \<lparr>up_id = ''p1'', up_workspaceId = ''w1'', up_name = ''id'', up_definition = ''id'',
            up_definitionUpdatedAt = Value 5, up_exampleValue = Null\<rparr> \<and>
   ''id'' \<in> set example_protected \<and>
   delete_handler store example_protected ''p1'' example_db = (Reply 404 None, example_db)"
proof -
  have d: "distinct_ids example_db"
    by (simp add: distinct_ids_def example_db_def)
  have l: "lookup example_db ''p1'' =
     Some \<lparr>up_id = ''p1'', up_workspaceId = ''w1'', up_name = ''id'', up_definition = ''id'',
            up_definitionUpdatedAt = Value 5, up_exampleValue = Null\<rparr>"
    by (simp add: lookup_def example_db_def)
  have p: "''id'' \<in> set example_protected"
    by (simp add: example_protected_def)
  from delete_protected_not_found [OF d l, where P = example_protected] d l p
  show ?thesis by simp
qed

subsection \<open>Protected rows and the PUT handler\<close>

text \<open>Claim C1 at two concrete requests. The store holds the row \<open>p1\<close>, whose name
  \<open>id\<close> is protected. A request with the id \<open>p1\<close> and another name passes the check of
  line 41, which looks at the name in the request only, and the upsert overwrites the name,
  the definition and \<open>definitionUpdatedAt\<close> of the protected row. A request with the id
  \<open>p1\<close> and no name passes the check as well, and the update overwrites the definition,
  \<open>definitionUpdatedAt\<close> and the example value.\<close>

theorem upsert_overwrites_protected_row:
  "lookup example_db ''p1'' =
     Some \<lparr>up_id = ''p1'', up_workspaceId = ''w1'', up_name = ''id'', up_definition = ''id'',
            up_definitionUpdatedAt = Value 5, up_exampleValue = Null\<rparr> \<and>
   ''id'' \<in> set example_protected \<and>
   upsert_handler store example_protected (schemaValidate example_schema) 10
     \<lparr>req_id = Some ''p1'', req_name = Some ''renamed'', req_definition = Some ''trait'',
      req_workspaceId = Some ''w1'', req_exampleValue = None\<rparr> example_db =
     (Reply 200 (Some \<lparr>res_id = ''p1'', res_name = ''renamed'', res_workspaceId = ''w1'',
                      res_definition = ''trait'', res_exampleValue = None\<rparr>),
      example_db\<lparr>userProperty_table :=
        [\<lparr>up_id = ''p1'', up_workspaceId = ''w1'', up_name = ''renamed'', up_definition = ''trait'',
          up_definitionUpdatedAt = Value 10, up_exampleValue = Null\<rparr>,
         \<lparr>up_id = ''p2'', up_workspaceId = ''w1'', up_name = ''email'', up_definition = ''trait'',
          up_definitionUpdatedAt = Value 7, up_exampleValue = Value ''a@b.c''\<rparr>,
         \<lparr>up_id = ''p3'', up_workspaceId = ''w1'', up_name = ''legacy'',
          up_definition = ''malformed'', up_definitionUpdatedAt = Null,
          up_exampleValue = Null\<rparr>]\<rparr>) \<and>
   upsert_handler store example_protected (schemaValidate example_schema) 10
     \<lparr>req_id = Some ''p1'', req_name = None, req_definition = Some ''trait'',
      req_workspaceId = None, req_exampleValue = Some ''7''\<rparr> example_db =
     (Reply 200 (Some \<lparr>res_id = ''p1'', res_name = ''id'', res_workspaceId = ''w1'',
                      res_definition = ''trait'', res_exampleValue = Some ''7''\<rparr>),
      example_db\<lparr>userProperty_table :=
        [\<lparr>up_id = ''p1'', up_workspaceId = ''w1'', up_name = ''id'', up_definition = ''trait'',
          up_definitionUpdatedAt = Value 10, up_exampleValue = Value ''7''\<rparr>,
         \<lparr>up_id = ''p2'', up_workspaceId = ''w1'', up_name = ''email'', up_definition = ''trait'',
          up_definitionUpdatedAt = Value 7, up_exampleValue = Value ''a@b.c''\<rparr>,
         \<lparr>up_id = ''p3'', up_workspaceId = ''w1'', up_name = ''legacy'',
          up_definition = ''malformed'', up_definitionUpdatedAt = Null,
          up_exampleValue = Null\<rparr>]\<rparr>)"
  by (simp add: example_db_def example_protected_def example_schema_def schemaValidate_def
      upsert_handler_def upsert_persist_def has_def truthy_def store_def store_upsert_def
      store_update_def lookup_def name_taken_def apply_update_def resource_of_def Let_def)

end
